theory Spec2Isabelle
  imports Main
begin

section \<open>The per-page image cache of the portfolio site\<close>

text \<open>
  The repository holds two implementations of one feature, a profile image kept per page
  in the browser's \<open>localStorage\<close>: the React hook \<open>usePageImage\<close> with its
  \<open>ImageUploader\<close> component (src/Home.jsx, lines 133 to 197), and the plain script
  src/assets/js/main.js. Both are embedded below as functions on an explicit state: the
  state of one page instance (what the page shows, the file reads in flight) together with
  the storage of the origin.

  JavaScript strings are modelled as \<open>string\<close>. A \<open>char\<close> is one code unit in the
  range 0 to 255, so code units above 255 are outside the model.
\<close>

subsection \<open>The browser primitives the code calls\<close>

text \<open>
  Modelled from the spec: \<open>localStorage\<close> is a browser primitive, not code of the
  repository; the spec names its three calls and the two ways it fails. The model has the
  three behaviours the code can meet: storage the origin may not touch at all (every access
  throws, and there is nothing to read), storage that can be read but refuses writes (the
  quota is used up), and storage that works. \<open>removeItem\<close> throws only when the
  storage cannot be accessed.
\<close>

datatype exn = SecurityError | QuotaExceededError

datatype storage = Blocked | Store (quota_full: bool) (items: "string \<rightharpoonup> string")

fun getItem :: "storage \<Rightarrow> string \<Rightarrow> exn + string option" where
  "getItem Blocked k = Inl SecurityError"
| "getItem (Store full m) k = Inr (m k)"

fun setItem :: "storage \<Rightarrow> string \<Rightarrow> string \<Rightarrow> exn + storage" where
  "setItem Blocked k v = Inl SecurityError"
| "setItem (Store full m) k v =
     (if full then Inl QuotaExceededError else Inr (Store full (m(k \<mapsto> v))))"

fun removeItem :: "storage \<Rightarrow> string \<Rightarrow> exn + storage" where
  "removeItem Blocked k = Inl SecurityError"
| "removeItem (Store full m) k = Inr (Store full (m(k := None)))"

text \<open>The stored entry of a key, as an observer of the storage sees it.\<close>

fun entry :: "storage \<Rightarrow> string \<Rightarrow> string option" where
  "entry Blocked k = None"
| "entry (Store full m) k = m k"

text \<open>
  The script of src/assets/js/main.js shows an image by assigning the text
  \<open>url("<url>")\<close> to a style property, with the URL put between the quotes as it is
  (line 33). The browser keeps such an assignment only when the text is a valid CSS value.
  It certainly is, and denotes that very URL, when the URL is free of the characters that
  have a meaning in the \<open>url(...)\<close> notation: quotes, parentheses, the backslash, white
  space and the control characters. What the browser makes of any other URL is not
  modelled.
\<close>

definition css_special :: "char \<Rightarrow> bool" where
  "css_special c \<longleftrightarrow>
     of_char c \<le> (0x20 :: nat) \<or> c = CHR 0x7F
     \<or> c = CHR 0x22 \<or> c = CHR 0x27 \<or> c = CHR 0x28 \<or> c = CHR 0x29 \<or> c = CHR 0x5C"

definition css_safe :: "string \<Rightarrow> bool" where
  "css_safe s \<longleftrightarrow> filter css_special s = []"

text \<open>
  Modelled from the spec: \<open>FileReader.readAsDataURL\<close> is a browser primitive too. The
  spec gives the shape of its result, \<open>data:<mime>;base64,<payload>\<close>; a file is
  represented by the two parts the result is made of, the MIME type the file picker
  reports and the Base64 text of its bytes. Neither holds a character that is special in
  the sense above: Base64 text is made of letters, digits, \<open>+\<close>, \<open>/\<close> and \<open>=\<close>,
  a MIME type of a type and a subtype joined by \<open>/\<close>. The read is asynchronous:
  \<open>onFile\<close> only starts it, and \<open>onload\<close> fires later, or never for a file that
  cannot be read.
\<close>

typedef plain = "{s :: string. css_safe s}"
  by (rule exI [of _ "[]"]) (simp add: css_safe_def)

datatype jsfile = File (mime: plain) (payload: plain)

definition readAsDataURL :: "jsfile \<Rightarrow> string" where
  "readAsDataURL f = ''data:'' @ Rep_plain (mime f) @ '';base64,'' @ Rep_plain (payload f)"

text \<open>
  \<open>String.prototype.trim\<close> removes white space and line terminators from both ends.
  Of the code units it removes, these are in the range of \<open>char\<close>: TAB, LF, VT, FF, CR,
  SPACE and NO-BREAK SPACE.
\<close>

definition isWhiteSpace :: "char \<Rightarrow> bool" where
  "isWhiteSpace c \<longleftrightarrow>
     c = CHR 0x09 \<or> c = CHR 0x0A \<or> c = CHR 0x0B \<or> c = CHR 0x0C \<or> c = CHR 0x0D
     \<or> c = CHR 0x20 \<or> c = CHR 0xA0"

definition trim :: "string \<Rightarrow> string" where
  "trim s = rev (dropWhile isWhiteSpace (rev (dropWhile isWhiteSpace s)))"

text \<open>
  What the two implementations share: the file reads in flight, in the order they were
  started, and the storage of the origin.
\<close>

record page_env =
  readers :: "jsfile list"
  localStorage :: storage

subsection \<open>src/Home.jsx: \<open>usePageImage\<close> and \<open>ImageUploader\<close>\<close>

text \<open>
  One instance of \<open>ImageUploader\<close>: the hook's state \<open>src\<close>, the component's state
  \<open>tempUrl\<close>, and what React does with an exception nobody catches. An exception thrown
  by an effect unmounts the component tree (there is no error boundary in the file); one
  thrown by an event handler or by the reader's callback is reported and the page stays.
  \<open>uncaught\<close> records both. An unmounted tree has no controls and shows nothing.

  Every page component renders its own \<open>ImageUploader\<close>, so a navigation mounts a fresh
  instance. On the home page \<open>Hero\<close> (line 252) calls the hook a second time and uses
  only \<open>src\<close>: that instance reads the storage when it is mounted and has no controls;
  the operations below belong to the instance of \<open>ImageUploader\<close>.

  Navigation is client-side and nothing aborts a \<open>FileReader\<close> when its component is
  unmounted. \<open>readers\<close> are the reads started by the instance that is mounted now,
  \<open>detached\<close> the reads that earlier instances of this page started and that are still
  in flight; their callbacks hold the key of this page.
\<close>

record react_state = page_env +
  src :: string
  tempUrl :: string
  mounted :: bool
  uncaught :: "exn list"
  detached :: "jsfile list"

text \<open>Line 135: \<open>`profile-image:${pathname || "/"}`\<close>.\<close>

definition key :: "string \<Rightarrow> string" where
  "key pathname = ''profile-image:'' @ (if pathname = '''' then ''/'' else pathname)"

text \<open>\<open>setSrc\<close> of an unmounted component does nothing.\<close>

definition setSrc :: "string \<Rightarrow> react_state \<Rightarrow> react_state" where
  "setSrc v s = (if mounted s then s\<lparr>src := v\<rparr> else s)"

text \<open>A fresh instance: \<open>useState("")\<close> twice (lines 136 and 169).\<close>

definition mount :: "storage \<Rightarrow> react_state" where
  "mount ls = \<lparr>readers = [], localStorage = ls, src = '''', tempUrl = '''',
               mounted = True, uncaught = [], detached = []\<rparr>"

text \<open>
  The page is left and entered again: a fresh instance over the same storage, and the reads
  in flight go on without their component.
\<close>

definition remount :: "react_state \<Rightarrow> react_state" where
  "remount s = (mount (localStorage s))\<lparr>detached := detached s @ readers s\<rparr>"

text \<open>Lines 138 to 142, the body of the effect. \<open>if (cached)\<close> is false for \<open>null\<close> and for the empty string.\<close>

definition useEffect :: "string \<Rightarrow> react_state \<Rightarrow> react_state" where
  "useEffect pathname s =
     (case getItem (localStorage s) (key pathname) of
        Inl e \<Rightarrow> s\<lparr>mounted := False, uncaught := uncaught s @ [e]\<rparr>
      | Inr cached \<Rightarrow>
          (case cached of
             None \<Rightarrow> s
           | Some v \<Rightarrow> if v = '''' then s else setSrc v s))"

text \<open>Lines 144 to 152. \<open>onFile\<close> starts a read; \<open>onFile_onload i\<close> is the callback of the read at position \<open>i\<close> of those in flight.\<close>

definition onFile :: "jsfile \<Rightarrow> react_state \<Rightarrow> react_state" where
  "onFile f s = s\<lparr>readers := readers s @ [f]\<rparr>"

definition onFile_onload :: "string \<Rightarrow> nat \<Rightarrow> react_state \<Rightarrow> react_state" where
  "onFile_onload pathname i s =
     (if i < length (readers s) then
        (let dataUrl = readAsDataURL (readers s ! i);
             s1 = setSrc dataUrl (s\<lparr>readers := take i (readers s) @ drop (Suc i) (readers s)\<rparr>)
         in case setItem (localStorage s1) (key pathname) dataUrl of
              Inl e \<Rightarrow> s1\<lparr>uncaught := uncaught s1 @ [e]\<rparr>
            | Inr ls \<Rightarrow> s1\<lparr>localStorage := ls\<rparr>)
      else s)"

text \<open>
  The same callback for a read whose component is gone: \<open>setSrc\<close> does nothing there,
  the write to the storage happens all the same.
\<close>

definition onFile_onload_detached :: "string \<Rightarrow> nat \<Rightarrow> react_state \<Rightarrow> react_state" where
  "onFile_onload_detached pathname i s =
     (if i < length (detached s) then
        (let dataUrl = readAsDataURL (detached s ! i);
             s1 = s\<lparr>detached := take i (detached s) @ drop (Suc i) (detached s)\<rparr>
         in case setItem (localStorage s1) (key pathname) dataUrl of
              Inl e \<Rightarrow> s1\<lparr>uncaught := uncaught s1 @ [e]\<rparr>
            | Inr ls \<Rightarrow> s1\<lparr>localStorage := ls\<rparr>)
      else s)"

text \<open>Lines 154 to 157.\<close>

definition setFromUrl :: "string \<Rightarrow> string \<Rightarrow> react_state \<Rightarrow> react_state" where
  "setFromUrl pathname url s =
     (let s1 = setSrc url s
      in case setItem (localStorage s1) (key pathname) url of
           Inl e \<Rightarrow> s1\<lparr>uncaught := uncaught s1 @ [e]\<rparr>
         | Inr ls \<Rightarrow> s1\<lparr>localStorage := ls\<rparr>)"

text \<open>Lines 159 to 162.\<close>

definition clear :: "string \<Rightarrow> react_state \<Rightarrow> react_state" where
  "clear pathname s =
     (let s1 = setSrc '''' s
      in case removeItem (localStorage s1) (key pathname) of
           Inl e \<Rightarrow> s1\<lparr>uncaught := uncaught s1 @ [e]\<rparr>
         | Inr ls \<Rightarrow> s1\<lparr>localStorage := ls\<rparr>)"

text \<open>
  The controls of \<open>ImageUploader\<close>. Line 175, the file input:
  \<open>e.target.files?.[0] && onFile(e.target.files[0])\<close>; the file list may be missing or
  empty. Line 186, the text field: \<open>setTempUrl(e.target.value)\<close>. Line 188, the Set
  button: \<open>tempUrl && setFromUrl(tempUrl)\<close>. Line 178, the Clear button: \<open>clear\<close>.
  An unmounted tree has no controls, so no event reaches a handler.
\<close>

definition fileInput_onChange :: "jsfile list option \<Rightarrow> react_state \<Rightarrow> react_state" where
  "fileInput_onChange files s =
     (if mounted s then
        (case files of None \<Rightarrow> s | Some [] \<Rightarrow> s | Some (f # _) \<Rightarrow> onFile f s)
      else s)"

definition urlInput_onChange :: "string \<Rightarrow> react_state \<Rightarrow> react_state" where
  "urlInput_onChange v s = (if mounted s then s\<lparr>tempUrl := v\<rparr> else s)"

definition Set_onClick :: "string \<Rightarrow> react_state \<Rightarrow> react_state" where
  "Set_onClick pathname s =
     (if mounted s then
        (if tempUrl s = '''' then s else setFromUrl pathname (tempUrl s) s)
      else s)"

definition Clear_onClick :: "string \<Rightarrow> react_state \<Rightarrow> react_state" where
  "Clear_onClick pathname s = (if mounted s then clear pathname s else s)"

subsection \<open>src/assets/js/main.js\<close>

text \<open>
  The page of the plain script: the inline background image of \<open>#photoPreview\<close>, or
  no such element (\<open>querySelector\<close> returned \<open>null\<close>). The background is
  \<open>none\<close>, or a URL, or it is not known: after the script has assigned
  \<open>url("<text>")\<close> with a text that holds a special character, the browser has kept
  the old background or made something else of the assignment, and \<open>CssUnknown\<close>
  only records the text. Every access to the storage is inside \<open>try\<close>/\<open>catch\<close>,
  so nothing is ever uncaught.
\<close>

datatype css_image = CssNone | CssUrl string | CssUnknown string

datatype element = Missing | Element (backgroundImage: css_image)

record main_state = page_env +
  preview :: element

text \<open>Lines 5 and 6. \<open>getAttribute\<close> returns \<open>null\<close> when the body has no \<open>data-page\<close>.\<close>

definition page :: "string option \<Rightarrow> string" where
  "page attr = (case attr of None \<Rightarrow> ''home'' | Some a \<Rightarrow> if a = '''' then ''home'' else a)"

definition LS_KEY :: "string option \<Rightarrow> string" where
  "LS_KEY attr = ''ant-portfolio-photo:'' @ page attr"

text \<open>
  Lines 31 to 34. Line 33 assigns \<open>none\<close> for an empty URL and otherwise
  \<open>url("<url>")\<close>, the URL unescaped between the quotes; the browser shows that URL
  when it holds no special character.
\<close>

definition setPreview :: "string \<Rightarrow> main_state \<Rightarrow> main_state" where
  "setPreview url s =
     (case preview s of
        Missing \<Rightarrow> s
      | Element _ \<Rightarrow>
          s\<lparr>preview := Element (if url = '''' then CssNone
                                 else if css_safe url then CssUrl url
                                 else CssUnknown url)\<rparr>)"

text \<open>A freshly parsed page, before the script runs: no inline background image, no read in flight.\<close>

definition document :: "bool \<Rightarrow> storage \<Rightarrow> main_state" where
  "document has_preview ls =
     \<lparr>readers = [], localStorage = ls,
      preview = (if has_preview then Element CssNone else Missing)\<rparr>"

text \<open>Lines 38 to 41.\<close>

definition load_cached :: "string option \<Rightarrow> main_state \<Rightarrow> main_state" where
  "load_cached attr s =
     (case getItem (localStorage s) (LS_KEY attr) of
        Inl e \<Rightarrow> s
      | Inr cached \<Rightarrow>
          (case cached of
             None \<Rightarrow> s
           | Some v \<Rightarrow> if v = '''' then s else setPreview v s))"

text \<open>
  Lines 45 to 77. A listener is registered only when its control exists, and an event on a
  control that does not exist cannot happen; each function below is the body of a listener.
  The click on \<open>#setUrlBtn\<close> carries the current value of \<open>#urlInput\<close>.
\<close>

definition fileInput_change :: "jsfile list option \<Rightarrow> main_state \<Rightarrow> main_state" where
  "fileInput_change files s =
     (case files of
        None \<Rightarrow> s
      | Some [] \<Rightarrow> s
      | Some (f # _) \<Rightarrow> s\<lparr>readers := readers s @ [f]\<rparr>)"

definition reader_onload :: "string option \<Rightarrow> nat \<Rightarrow> main_state \<Rightarrow> main_state" where
  "reader_onload attr i s =
     (if i < length (readers s) then
        (let dataUrl = readAsDataURL (readers s ! i);
             s1 = setPreview dataUrl (s\<lparr>readers := take i (readers s) @ drop (Suc i) (readers s)\<rparr>)
         in case setItem (localStorage s1) (LS_KEY attr) dataUrl of
              Inl e \<Rightarrow> s1
            | Inr ls \<Rightarrow> s1\<lparr>localStorage := ls\<rparr>)
      else s)"

definition setUrlBtn_click :: "string option \<Rightarrow> string \<Rightarrow> main_state \<Rightarrow> main_state" where
  "setUrlBtn_click attr value s =
     (let val = trim value
      in if val = '''' then s
         else (let s1 = setPreview val s
               in case setItem (localStorage s1) (LS_KEY attr) val of
                    Inl e \<Rightarrow> s1
                  | Inr ls \<Rightarrow> s1\<lparr>localStorage := ls\<rparr>))"

definition clearBtn_click :: "string option \<Rightarrow> main_state \<Rightarrow> main_state" where
  "clearBtn_click attr s =
     (let s1 = setPreview '''' s
      in case removeItem (localStorage s1) (LS_KEY attr) of
           Inl e \<Rightarrow> s1
         | Inr ls \<Rightarrow> s1\<lparr>localStorage := ls\<rparr>)"

subsection \<open>The operations of the component, on both implementations\<close>

text \<open>
  What the viewer sees. In the React component it is the image rendered from \<open>src\<close>
  (\<open>{src && <img src={src} />}\<close>). In the plain script it is the URL in the background
  of the preview; where the background is not known, the model does not say what the page
  shows (\<open>None\<close>).
\<close>

definition visible :: "react_state \<Rightarrow> string" where
  "visible s = (if mounted s then src s else '''')"

definition shown :: "main_state \<Rightarrow> string option" where
  "shown s =
     (case preview s of
        Missing \<Rightarrow> Some ''''
      | Element CssNone \<Rightarrow> Some ''''
      | Element (CssUrl u) \<Rightarrow> Some u
      | Element (CssUnknown t) \<Rightarrow> None)"

text \<open>
  The four operations and the completion of a file read. \<open>Load\<close> is the activation of the
  page, then the code that reads the cache. In the React application the page is entered
  again and the reads in flight become detached; \<open>StaleFileLoaded\<close> is the completion
  of one of them. The plain script runs in a new document, and the reads of the old
  document are gone with it. \<open>SetFromUrl u\<close> is the text \<open>u\<close> in the field and a click
  on the Set button.
\<close>

datatype operation =
  Load | SetFromFile "jsfile list option" | FileLoaded nat | StaleFileLoaded nat
  | SetFromUrl string | Clear

fun react_op :: "string \<Rightarrow> operation \<Rightarrow> react_state \<Rightarrow> react_state" where
  "react_op p Load s = useEffect p (remount s)"
| "react_op p (SetFromFile files) s = fileInput_onChange files s"
| "react_op p (FileLoaded i) s = onFile_onload p i s"
| "react_op p (StaleFileLoaded i) s = onFile_onload_detached p i s"
| "react_op p (SetFromUrl u) s = Set_onClick p (urlInput_onChange u s)"
| "react_op p Clear s = Clear_onClick p s"

fun main_op :: "string option \<Rightarrow> operation \<Rightarrow> main_state \<Rightarrow> main_state" where
  "main_op a Load s = load_cached a (document (preview s \<noteq> Missing) (localStorage s))"
| "main_op a (SetFromFile files) s = fileInput_change files s"
| "main_op a (FileLoaded i) s = reader_onload a i s"
| "main_op a (StaleFileLoaded i) s = s"
| "main_op a (SetFromUrl u) s = setUrlBtn_click a u s"
| "main_op a Clear s = clearBtn_click a s"

fun react_run :: "string \<Rightarrow> operation list \<Rightarrow> react_state \<Rightarrow> react_state" where
  "react_run p [] s = s"
| "react_run p (x # xs) s = react_run p xs (react_op p x s)"

fun main_run :: "string option \<Rightarrow> operation list \<Rightarrow> main_state \<Rightarrow> main_state" where
  "main_run a [] s = s"
| "main_run a (x # xs) s = main_run a xs (main_op a x s)"

subsection \<open>Relating the two implementations\<close>



section \<open>Properties\<close>

subsection \<open>Auxiliary facts\<close>

lemmas react_defs = key_def setSrc_def mount_def remount_def useEffect_def onFile_def
  onFile_onload_def onFile_onload_detached_def setFromUrl_def clear_def fileInput_onChange_def
  urlInput_onChange_def Set_onClick_def Clear_onClick_def visible_def

lemmas main_defs = page_def LS_KEY_def setPreview_def document_def load_cached_def
  fileInput_change_def reader_onload_def setUrlBtn_click_def clearBtn_click_def shown_def

lemmas css_defs = css_safe_def css_special_def

lemma css_safe_Nil [simp]: "css_safe ''''"
  by (simp add: css_safe_def)

lemma css_safe_append: "css_safe (xs @ ys) \<longleftrightarrow> css_safe xs \<and> css_safe ys"
  by (simp add: css_safe_def)

text \<open>A data URL holds no special character, and it is never empty.\<close>

lemma css_safe_readAsDataURL [simp]: "css_safe (readAsDataURL f)"
  using Rep_plain [of "mime f"] Rep_plain [of "payload f"]
  by (simp add: readAsDataURL_def css_safe_append) (simp add: css_defs)

lemma readAsDataURL_nonempty [simp]: "readAsDataURL f \<noteq> ''''"
  by (simp add: readAsDataURL_def)

lemma trim_Nil [simp]: "trim '''' = ''''"
  by (simp add: trim_def)

lemma key_eq_iff:
  "key p1 = key p2 \<longleftrightarrow> (if p1 = '''' then ''/'' else p1) = (if p2 = '''' then ''/'' else p2)"
  by (simp add: key_def)

lemma LS_KEY_eq_iff: "LS_KEY a1 = LS_KEY a2 \<longleftrightarrow> page a1 = page a2"
  by (simp add: LS_KEY_def)

lemma localStorage_setSrc [simp]: "localStorage (setSrc v s) = localStorage s"
  by (simp add: setSrc_def)

lemma localStorage_setPreview [simp]: "localStorage (setPreview v s) = localStorage s"
  by (simp add: setPreview_def split: element.splits)

lemma preview_setPreview [simp]: "(preview (setPreview v s) = Missing) = (preview s = Missing)"
  by (simp add: setPreview_def split: element.splits)

text \<open>An operation on a page writes under the key of that page only.\<close>

lemma react_op_frame:
  "k \<noteq> key p \<Longrightarrow> entry (localStorage (react_op p x r)) k = entry (localStorage r) k"
  by (cases x; cases "localStorage r")
     (auto simp: react_defs Let_def split: option.splits list.splits sum.splits if_splits)

lemma main_op_frame:
  "k \<noteq> LS_KEY a \<Longrightarrow> entry (localStorage (main_op a x m)) k = entry (localStorage m) k"
  by (cases x; cases "localStorage m")
     (auto simp: LS_KEY_def document_def load_cached_def fileInput_change_def reader_onload_def
           setUrlBtn_click_def clearBtn_click_def Let_def
           split: option.splits list.splits sum.splits if_splits)

lemma main_op_preview:
  "(preview (main_op a x m) = Missing) = (preview m = Missing)"
  by (cases x; cases "localStorage m")
     (auto simp: LS_KEY_def document_def load_cached_def fileInput_change_def reader_onload_def
           setUrlBtn_click_def clearBtn_click_def Let_def
           split: option.splits list.splits sum.splits if_splits)

text \<open>What a freshly activated page shows is the stored entry, if there is one.\<close>

lemma visible_useEffect_remount:
  "visible (useEffect p (remount s)) =
     (case entry (localStorage s) (key p) of None \<Rightarrow> '''' | Some v \<Rightarrow> v)"
  by (cases "localStorage s") (auto simp: react_defs split: option.splits)

lemma shown_load_cached_document:
  "shown (load_cached a (document b ls)) =
     (if b then
        (case entry ls (LS_KEY a) of
           None \<Rightarrow> Some ''''
         | Some v \<Rightarrow> if css_safe v then Some v else None)
      else Some '''')"
  by (cases ls) (auto simp: main_defs split: option.splits)

subsection \<open>Setting a URL and loading the page again\<close>




subsection \<open>Pages do not disturb each other\<close>

text \<open>
  C2, as the code has it. Two pages whose identifiers differ after the code's defaulting
  (an empty pathname counts as \<open>/\<close>; a missing or empty \<open>data-page\<close> counts as
  \<open>home\<close>) have different keys, and no operation on the first page changes the stored
  entry of the second or what the second shows when it is loaded.
\<close>

theorem other_pages_untouched:
  assumes "(if p1 = '''' then ''/'' else p1) \<noteq> (if p2 = '''' then ''/'' else p2)"
    and "page a1 \<noteq> page a2"
  shows "key p1 \<noteq> key p2
       \<and> entry (localStorage (react_op p1 x r)) (key p2) = entry (localStorage r) (key p2)
       \<and> visible (react_op p2 Load (react_op p1 x r)) = visible (react_op p2 Load r)
       \<and> LS_KEY a1 \<noteq> LS_KEY a2
       \<and> entry (localStorage (main_op a1 x m)) (LS_KEY a2) = entry (localStorage m) (LS_KEY a2)
       \<and> shown (main_op a2 Load (main_op a1 x m)) = shown (main_op a2 Load m)"
proof -
  have kr: "key p2 \<noteq> key p1" using assms(1) by (auto simp: key_eq_iff)
  have km: "LS_KEY a2 \<noteq> LS_KEY a1" using assms(2) by (auto simp: LS_KEY_eq_iff)
  show ?thesis
    using kr km
    by (simp add: visible_useEffect_remount shown_load_cached_document react_op_frame
        main_op_frame main_op_preview)
qed

theorem other_pages_untouched_witness:
  "(if ''/work'' = '''' then ''/'' else ''/work'')
      \<noteq> (if ''/education'' = '''' then ''/'' else ''/education'')
   \<and> page (Some ''work'') \<noteq> page None
   \<and> key ''/work'' \<noteq> key ''/education''
   \<and> entry (localStorage (react_op ''/work'' (SetFromUrl ''x'') (mount (Store False Map.empty))))
        (key ''/education'') = None
   \<and> LS_KEY (Some ''work'') \<noteq> LS_KEY None
   \<and> entry (localStorage (main_op (Some ''work'') (SetFromUrl ''x'')
        (document True (Store False Map.empty)))) (LS_KEY None) = None"
  using other_pages_untouched [of "''/work''" "''/education''" "Some ''work''" None
      "SetFromUrl ''x''" "mount (Store False Map.empty)" "document True (Store False Map.empty)"]
  by (simp add: page_def mount_def document_def)

text \<open>
  C2 as stated fails: the empty identifier shares its key with \<open>home\<close> in the plain
  script and with \<open>/\<close> in the React component, and so does a page without a
  \<open>data-page\<close> attribute. Setting a URL on such a page changes the stored entry of the
  page \<open>home\<close> and what that page shows.
\<close>

theorem defaulted_pages_share_a_key:
  "Some '''' \<noteq> Some ''home'' \<and> LS_KEY (Some '''') = LS_KEY (Some ''home'')
   \<and> '''' \<noteq> ''/'' \<and> key '''' = key ''/''
   \<and> (None :: string option) \<noteq> Some ''home''
   \<and> LS_KEY None = LS_KEY (Some ''home'')
   \<and> entry (localStorage (document True (Store False Map.empty))) (LS_KEY (Some ''home'')) = None
   \<and> entry (localStorage (main_op None (SetFromUrl ''x'') (document True (Store False Map.empty))))
        (LS_KEY (Some ''home'')) = Some ''x''
   \<and> shown (main_op (Some ''home'') Load (document True (Store False Map.empty))) = Some ''''
   \<and> shown (main_op (Some ''home'') Load
        (main_op None (SetFromUrl ''x'') (document True (Store False Map.empty)))) = Some ''x''"
  by (simp add: key_def main_defs css_defs trim_def isWhiteSpace_def Let_def)

subsection \<open>Blank URLs\<close>

text \<open>
  The plain script ignores a text that is empty after trimming, and the Set button of the
  React component ignores the empty text (it only keeps it in \<open>tempUrl\<close>).
\<close>

lemma blank_url_is_noop_in_script: "trim u = '''' \<Longrightarrow> main_op a (SetFromUrl u) m = m"
  by (simp add: setUrlBtn_click_def)

lemma empty_url_is_noop_in_react:
  "react_op p (SetFromUrl '''') r = (if mounted r then r\<lparr>tempUrl := ''''\<rparr> else r)"
  by (simp add: Set_onClick_def urlInput_onChange_def)

text \<open>
  C3 at the input where the React component departs from it. A text of three spaces, or of
  one no-break space, is white space only, and the plain script leaves the page as it was;
  the Set button of the React component shows that text and stores it.
\<close>

theorem react_stores_blank_url:
  "trim ''   '' = '''' \<and> trim [CHR 0xA0] = ''''
   \<and> visible (react_op ''/'' (SetFromUrl ''   '') (mount (Store False Map.empty))) = ''   ''
   \<and> entry (localStorage (react_op ''/'' (SetFromUrl ''   '') (mount (Store False Map.empty))))
        (key ''/'') = Some ''   ''
   \<and> visible (react_op ''/'' (SetFromUrl [CHR 0xA0]) (mount (Store False Map.empty))) = [CHR 0xA0]
   \<and> entry (localStorage (react_op ''/'' (SetFromUrl [CHR 0xA0]) (mount (Store False Map.empty))))
        (key ''/'') = Some [CHR 0xA0]
   \<and> main_op None (SetFromUrl ''   '') (document True (Store False Map.empty))
        = document True (Store False Map.empty)"
  by (simp add: react_defs main_defs trim_def isWhiteSpace_def Let_def)

subsection \<open>Clear\<close>

text \<open>
  C4. Clear, whatever the state was before, leaves the React component mounted with an
  empty \<open>src\<close> and assigns \<open>none\<close> to the preview of the script, so the page
  shows nothing; it removes the entry of the page from the storage and touches no other
  entry, so the key has no entry. When the page is loaded again it shows nothing: the
  script is the fresh page, the React component has an empty \<open>src\<close> (and is mounted
  exactly when the storage can be accessed). A second Clear changes nothing (in the React
  component, nothing but the log of exceptions nobody caught). The React component must be
  mounted for its Clear button to exist.
\<close>

theorem clear_empties_and_is_idempotent:
  assumes "mounted r"
  shows "mounted (react_op p Clear r)
       \<and> src (react_op p Clear r) = ''''
       \<and> visible (react_op p Clear r) = ''''
       \<and> localStorage (react_op p Clear r)
           = (case localStorage r of
                Blocked \<Rightarrow> Blocked
              | Store full i \<Rightarrow> Store full (i(key p := None)))
       \<and> entry (localStorage (react_op p Clear r)) (key p) = None
       \<and> src (react_op p Load (react_op p Clear r)) = ''''
       \<and> mounted (react_op p Load (react_op p Clear r)) = (localStorage r \<noteq> Blocked)
       \<and> visible (react_op p Load (react_op p Clear r)) = ''''
       \<and> react_op p Clear (react_op p Clear r)
           = (react_op p Clear r)\<lparr>uncaught := uncaught (react_op p Clear (react_op p Clear r))\<rparr>
       \<and> preview (main_op a Clear m)
           = (case preview m of Missing \<Rightarrow> Missing | Element c \<Rightarrow> Element CssNone)
       \<and> shown (main_op a Clear m) = Some ''''
       \<and> localStorage (main_op a Clear m)
           = (case localStorage m of
                Blocked \<Rightarrow> Blocked
              | Store full i \<Rightarrow> Store full (i(LS_KEY a := None)))
       \<and> entry (localStorage (main_op a Clear m)) (LS_KEY a) = None
       \<and> main_op a Load (main_op a Clear m)
           = document (preview m \<noteq> Missing) (localStorage (main_op a Clear m))
       \<and> shown (main_op a Load (main_op a Clear m)) = Some ''''
       \<and> main_op a Clear (main_op a Clear m) = main_op a Clear m"
  using assms
  by (cases "localStorage r"; cases "localStorage m"; cases "preview m")
     (simp_all add: react_defs main_defs Let_def)

theorem clear_empties_and_is_idempotent_witness:
  "mounted (react_op ''/work'' (SetFromUrl ''a.png'') (mount (Store False Map.empty)))
   \<and> src (react_op ''/work'' (SetFromUrl ''a.png'') (mount (Store False Map.empty))) = ''a.png''
   \<and> entry (localStorage (react_op ''/work'' (SetFromUrl ''a.png'') (mount (Store False Map.empty))))
        (key ''/work'') = Some ''a.png''
   \<and> src (react_op ''/work'' Clear
        (react_op ''/work'' (SetFromUrl ''a.png'') (mount (Store False Map.empty)))) = ''''
   \<and> mounted (react_op ''/work'' Clear
        (react_op ''/work'' (SetFromUrl ''a.png'') (mount (Store False Map.empty))))
   \<and> localStorage (react_op ''/work'' Clear
        (react_op ''/work'' (SetFromUrl ''a.png'') (mount (Store False Map.empty))))
        = Store False ([key ''/work'' \<mapsto> ''a.png''](key ''/work'' := None))"
  using clear_empties_and_is_idempotent
    [of "react_op ''/work'' (SetFromUrl ''a.png'') (mount (Store False Map.empty))" "''/work''"]
  by (simp add: react_defs)

subsection \<open>Loading from storage that is blocked\<close>

text \<open>The plain script catches the exception of the read: the page is the fresh page.\<close>

lemma script_load_blocked:
  "localStorage m = Blocked \<Longrightarrow>
     main_op a Load m = document (preview m \<noteq> Missing) Blocked
     \<and> shown (main_op a Load m) = Some ''''"
  by (simp add: main_defs)

text \<open>
  C6 at the input where the React component departs from it. With the storage blocked, the
  effect of \<open>usePageImage\<close> throws: the exception is not caught and the component tree
  is unmounted, where the plain script leaves the fresh page as it is.
\<close>

theorem react_load_throws_when_blocked:
  "mounted (react_op ''/'' Load (mount Blocked)) = False
   \<and> uncaught (react_op ''/'' Load (mount Blocked)) = [SecurityError]
   \<and> main_op None Load (document True Blocked) = document True Blocked"
  by (simp add: react_defs main_defs)

subsection \<open>Reading a file\<close>

text \<open>
  C5. Selecting a file only starts the read: what the page shows and the storage stay as
  they were. When the read completes, on storage that accepts the write, the page shows the
  data URL of the file, the entry of the page is that same string, replacing whatever was
  there, and the read is no longer in flight, so it cannot complete again.
\<close>

theorem file_read_completes:
  assumes "mounted r" and "localStorage r = Store False ir"
    and "preview m \<noteq> Missing" and "localStorage m = Store False im"
  shows "visible (react_op p (SetFromFile (Some (f # fs))) r) = visible r
       \<and> localStorage (react_op p (SetFromFile (Some (f # fs))) r) = localStorage r
       \<and> readers (react_op p (SetFromFile (Some (f # fs))) r) = readers r @ [f]
       \<and> visible (react_op p (FileLoaded (length (readers r)))
            (react_op p (SetFromFile (Some (f # fs))) r)) = readAsDataURL f
       \<and> entry (localStorage (react_op p (FileLoaded (length (readers r)))
            (react_op p (SetFromFile (Some (f # fs))) r))) (key p) = Some (readAsDataURL f)
       \<and> readers (react_op p (FileLoaded (length (readers r)))
            (react_op p (SetFromFile (Some (f # fs))) r)) = readers r
       \<and> shown (main_op a (SetFromFile (Some (f # fs))) m) = shown m
       \<and> localStorage (main_op a (SetFromFile (Some (f # fs))) m) = localStorage m
       \<and> readers (main_op a (SetFromFile (Some (f # fs))) m) = readers m @ [f]
       \<and> shown (main_op a (FileLoaded (length (readers m)))
            (main_op a (SetFromFile (Some (f # fs))) m)) = Some (readAsDataURL f)
       \<and> entry (localStorage (main_op a (FileLoaded (length (readers m)))
            (main_op a (SetFromFile (Some (f # fs))) m))) (LS_KEY a) = Some (readAsDataURL f)
       \<and> readers (main_op a (FileLoaded (length (readers m)))
            (main_op a (SetFromFile (Some (f # fs))) m)) = readers m"
  using assms
  by (cases "preview m") (simp_all add: react_defs main_defs Let_def)

theorem file_read_completes_witness:
  "visible (react_op ''/'' (FileLoaded 0) (react_op ''/''
      (SetFromFile (Some [File (Abs_plain ''image/png'') (Abs_plain ''iVBORw0KGgo='')]))
      (mount (Store False [''k'' \<mapsto> ''v'']))))
     = ''data:image/png;base64,iVBORw0KGgo=''
   \<and> entry (localStorage (react_op ''/'' (FileLoaded 0) (react_op ''/''
      (SetFromFile (Some [File (Abs_plain ''image/png'') (Abs_plain ''iVBORw0KGgo='')]))
      (mount (Store False [''k'' \<mapsto> ''v''])))))
      (key ''/'') = Some ''data:image/png;base64,iVBORw0KGgo=''
   \<and> shown (main_op None (FileLoaded 0) (main_op None
      (SetFromFile (Some [File (Abs_plain ''image/png'') (Abs_plain ''iVBORw0KGgo='')]))
      (document True (Store False Map.empty))))
     = Some ''data:image/png;base64,iVBORw0KGgo=''"
  using file_read_completes [of "mount (Store False [''k'' \<mapsto> ''v''])" "[''k'' \<mapsto> ''v'']"
      "document True (Store False Map.empty)" Map.empty "''/''"
      "File (Abs_plain ''image/png'') (Abs_plain ''iVBORw0KGgo='')" "[]" None]
  by (simp add: mount_def document_def readAsDataURL_def Abs_plain_inverse css_defs)

text \<open>
  When the storage refuses the write, the page still shows the data URL and the storage
  stays as it was; the React callback leaves the exception uncaught, the script drops it.
\<close>

lemma react_write_refused:
  assumes "mounted r" and "localStorage r = Store True ir" and "i < length (readers r)"
  shows "visible (react_op p (FileLoaded i) r) = readAsDataURL (readers r ! i)
       \<and> localStorage (react_op p (FileLoaded i) r) = localStorage r
       \<and> uncaught (react_op p (FileLoaded i) r) = uncaught r @ [QuotaExceededError]"
  using assms by (simp add: react_defs Let_def)

lemma script_write_refused:
  assumes "preview m \<noteq> Missing" and "localStorage m = Store True im" and "i < length (readers m)"
  shows "shown (main_op a (FileLoaded i) m) = Some (readAsDataURL (readers m ! i))
       \<and> localStorage (main_op a (FileLoaded i) m) = localStorage m"
  using assms by (cases "preview m") (simp_all add: main_defs Let_def)

text \<open>
  C8. A file is selected and Clear is clicked before the read completes: right after Clear
  the page shows nothing and the key has no entry; when the read completes later, on
  storage that accepts the write, its callback puts the data URL back both on the page and
  in the storage. The later completion wins over the earlier click.
\<close>

theorem clear_before_completion:
  assumes "mounted r" and "localStorage r = Store False ir"
    and "preview m \<noteq> Missing" and "localStorage m = Store False im"
  shows "visible (react_run p [SetFromFile (Some (f # fs)), Clear] r) = ''''
       \<and> entry (localStorage (react_run p [SetFromFile (Some (f # fs)), Clear] r)) (key p) = None
       \<and> visible (react_run p [SetFromFile (Some (f # fs)), Clear, FileLoaded (length (readers r))] r)
            = readAsDataURL f
       \<and> entry (localStorage
            (react_run p [SetFromFile (Some (f # fs)), Clear, FileLoaded (length (readers r))] r))
            (key p) = Some (readAsDataURL f)
       \<and> shown (main_run a [SetFromFile (Some (f # fs)), Clear] m) = Some ''''
       \<and> entry (localStorage (main_run a [SetFromFile (Some (f # fs)), Clear] m)) (LS_KEY a) = None
       \<and> shown (main_run a [SetFromFile (Some (f # fs)), Clear, FileLoaded (length (readers m))] m)
            = Some (readAsDataURL f)
       \<and> entry (localStorage
            (main_run a [SetFromFile (Some (f # fs)), Clear, FileLoaded (length (readers m))] m))
            (LS_KEY a) = Some (readAsDataURL f)"
  using assms
  by (cases "preview m") (simp_all add: react_defs main_defs Let_def)

theorem clear_before_completion_witness:
  "visible (react_run ''/work''
      [SetFromFile (Some [File (Abs_plain ''image/gif'') (Abs_plain ''R0lGOD'')]), Clear]
      (mount (Store False [key ''/work'' \<mapsto> ''old.png'']))) = ''''
   \<and> visible (react_run ''/work''
      [SetFromFile (Some [File (Abs_plain ''image/gif'') (Abs_plain ''R0lGOD'')]), Clear, FileLoaded 0]
      (mount (Store False [key ''/work'' \<mapsto> ''old.png'']))) = ''data:image/gif;base64,R0lGOD''
   \<and> entry (localStorage (main_run (Some ''work'')
      [SetFromFile (Some [File (Abs_plain ''image/gif'') (Abs_plain ''R0lGOD'')]), Clear, FileLoaded 0]
      (document True (Store False Map.empty)))) (LS_KEY (Some ''work''))
      = Some ''data:image/gif;base64,R0lGOD''"
  using clear_before_completion [of "mount (Store False [key ''/work'' \<mapsto> ''old.png''])"
      "[key ''/work'' \<mapsto> ''old.png'']" "document True (Store False Map.empty)" Map.empty
      "''/work''" "File (Abs_plain ''image/gif'') (Abs_plain ''R0lGOD'')" "[]" "Some ''work''"]
  by (simp add: mount_def document_def readAsDataURL_def Abs_plain_inverse css_defs)

subsection \<open>The file input\<close>

text \<open>
  C9. A change event of the file input without a file, the file list missing or empty,
  does nothing at all in either implementation: no read is started, what the page shows
  does not change, and the storage is not written.
\<close>

theorem no_file_selected_is_noop:
  "fileInput_onChange None r = r \<and> fileInput_onChange (Some []) r = r
   \<and> fileInput_change None m = m \<and> fileInput_change (Some []) m = m"
  by (simp add: fileInput_onChange_def fileInput_change_def)

subsection \<open>The two implementations side by side\<close>






subsection \<open>No empty entry\<close>

lemma react_op_nonempty:
  "entry (localStorage r) (key p) \<noteq> Some '''' \<Longrightarrow>
     entry (localStorage (react_op p x r)) (key p) \<noteq> Some ''''"
  by (cases x; cases "localStorage r")
     (auto simp: react_defs Let_def split: option.splits list.splits if_splits)

lemma main_op_nonempty:
  "entry (localStorage m) (LS_KEY a) \<noteq> Some '''' \<Longrightarrow>
     entry (localStorage (main_op a x m)) (LS_KEY a) \<noteq> Some ''''"
  by (cases x; cases "localStorage m")
     (auto simp: LS_KEY_def document_def load_cached_def fileInput_change_def reader_onload_def
           setUrlBtn_click_def clearBtn_click_def Let_def
           split: option.splits list.splits if_splits)

lemma react_run_nonempty:
  "entry (localStorage r) (key p) \<noteq> Some '''' \<Longrightarrow>
     entry (localStorage (react_run p xs r)) (key p) \<noteq> Some ''''"
  by (induction xs arbitrary: r) (auto simp: react_op_nonempty)

lemma main_run_nonempty:
  "entry (localStorage m) (LS_KEY a) \<noteq> Some '''' \<Longrightarrow>
     entry (localStorage (main_run a xs m)) (LS_KEY a) \<noteq> Some ''''"
  by (induction xs arbitrary: m) (auto simp: main_op_nonempty)

lemma main_run_preview: "(preview (main_run a xs m) = Missing) = (preview m = Missing)"
  by (induction xs arbitrary: m) (auto simp: main_op_preview)

text \<open>
  Whatever the operations, neither implementation leaves the empty string under the key of
  the page: an entry that was not the empty string before is not the empty string after.
  So when the key has an entry, the React component shows a non-empty image when the page
  is loaded, and so does the plain script on a page that has the preview element when the
  entry holds no special character.
\<close>

lemma entries_stay_nonempty:
  assumes "entry (localStorage r) (key p) \<noteq> Some ''''"
    and "entry (localStorage m) (LS_KEY a) \<noteq> Some ''''" and "preview m \<noteq> Missing"
  shows "entry (localStorage (react_run p xs r)) (key p) \<noteq> Some ''''
       \<and> (entry (localStorage (react_run p xs r)) (key p) \<noteq> None
            \<longrightarrow> visible (react_op p Load (react_run p xs r)) \<noteq> '''')
       \<and> entry (localStorage (main_run a xs m)) (LS_KEY a) \<noteq> Some ''''
       \<and> (\<forall>v. entry (localStorage (main_run a xs m)) (LS_KEY a) = Some v \<and> css_safe v
            \<longrightarrow> shown (main_op a Load (main_run a xs m)) = Some v \<and> v \<noteq> '''')"
proof -
  have r: "entry (localStorage (react_run p xs r)) (key p) \<noteq> Some ''''"
    using assms(1) by (rule react_run_nonempty)
  have m: "entry (localStorage (main_run a xs m)) (LS_KEY a) \<noteq> Some ''''"
    using assms(2) by (rule main_run_nonempty)
  have pv: "preview (main_run a xs m) \<noteq> Missing"
    using assms(3) by (simp add: main_run_preview)
  show ?thesis
    using r m pv
    by (auto simp: visible_useEffect_remount shown_load_cached_document split: option.splits)
qed


end
